theory Spec2Isabelle
  imports Complex_Main "HOL-Library.Sublist" "HOL-Library.Multiset"
begin

section \<open>Alert manager (src/utils/alert\_manager.py)\<close>

text \<open>
  An instant is a point of time counted in microseconds (the resolution of Python's
  \<^verbatim>\<open>datetime\<close>); the code stores instants as ISO-8601 text, the model stores the
  instant that the text denotes.  The evaluation context is a dictionary from names to
  numbers.
\<close>

type_synonym instant = int

type_synonym eval_context = "string \<rightharpoonup> real"

text \<open>
  A rule is an object with four data fields and an optional callback.  The callback is
  called as \<^verbatim>\<open>callback(self, data)\<close> on the rule itself: it may assign to the fields of
  the rule, and it returns or raises.  The model hands it the fields of the rule and takes
  back its outcome together with the fields as it left them.  What a callback does to
  other objects (the data dictionary, the manager, the callback of the rule) is outside
  the model; the properties proved below are about managers whose rules have no callback,
  as the rules that the API creates.
\<close>

datatype cb_outcome = CbReturns | CbRaises

record alert_fields =
  condition :: string
  triggered :: bool
  triggered_at :: "instant option"
  trigger_count :: int

record alert = alert_fields +
  callback :: "(alert_fields \<Rightarrow> eval_context \<Rightarrow> cb_outcome \<times> alert_fields) option"

record alert_event =
  ev_condition :: string
  ev_triggered_at :: "instant option"
  ev_trigger_count :: int
  ev_context :: eval_context

record alert_manager =
  alerts :: "alert list"
  alert_history :: "alert_event list"

text \<open>
  \<^verbatim>\<open>Alert.evaluate\<close>: Python's \<^verbatim>\<open>eval\<close> of the condition under the context is a
  parameter \<open>py_eval\<close>; it yields \<open>None\<close> when \<^verbatim>\<open>eval\<close>, or the conversion of its
  result to a truth value, raises, and otherwise that truth value.  The \<^verbatim>\<open>except\<close>
  branch returns \<^verbatim>\<open>False\<close>.
\<close>

definition evaluate :: "(string \<Rightarrow> eval_context \<Rightarrow> bool option) \<Rightarrow> alert \<Rightarrow> eval_context \<Rightarrow> bool" where
  "evaluate py_eval a ctx = (case py_eval (condition a) ctx of Some b \<Rightarrow> b | None \<Rightarrow> False)"

text \<open>
  \<^verbatim>\<open>Alert.trigger\<close>: the three fields are written first, then the callback, if there is
  one, runs on the rule.  The result is the outcome of the callback and the rule as the
  callback left it; the writes, and what the callback assigned before raising, stay in
  place when the callback raises.
\<close>

definition run_callback :: "alert \<Rightarrow> eval_context \<Rightarrow> cb_outcome \<times> alert" where
  "run_callback a data =
     (case callback a of
        None \<Rightarrow> (CbReturns, a)
      | Some f \<Rightarrow>
          (case f \<lparr>condition = condition a, triggered = triggered a,
                    triggered_at = triggered_at a, trigger_count = trigger_count a\<rparr> data of
             (outcome, d) \<Rightarrow>
               (outcome, a\<lparr>condition := condition d, triggered := triggered d,
                           triggered_at := triggered_at d, trigger_count := trigger_count d\<rparr>)))"

definition trigger :: "instant \<Rightarrow> alert \<Rightarrow> eval_context \<Rightarrow> cb_outcome \<times> alert" where
  "trigger now a data =
     run_callback (a\<lparr>triggered := True, triggered_at := Some now,
                     trigger_count := trigger_count a + 1\<rparr>) data"

text \<open>\<^verbatim>\<open>AlertManager._record_alert\<close>: append, then keep the last 1000 entries.\<close>

definition event_of :: "alert \<Rightarrow> eval_context \<Rightarrow> alert_event" where
  "event_of a data =
     \<lparr>ev_condition = condition a, ev_triggered_at = triggered_at a,
      ev_trigger_count = trigger_count a, ev_context = data\<rparr>"

definition record_alert :: "alert \<Rightarrow> eval_context \<Rightarrow> alert_event list \<Rightarrow> alert_event list" where
  "record_alert a data h =
     (let h' = h @ [event_of a data]
      in if length h' > 1000 then drop (length h' - 1000) h' else h')"

text \<open>
  The body of the loop of \<^verbatim>\<open>AlertManager.evaluate_alerts\<close> for one rule.  The event is
  built from the rule as \<^verbatim>\<open>trigger\<close>, with its callback, left it.  An exception of the
  callback leaves \<^verbatim>\<open>trigger\<close> before \<^verbatim>\<open>_record_alert\<close> is reached and is caught by the
  \<^verbatim>\<open>except\<close> clause of the loop body.
\<close>

definition evaluate_one ::
  "(string \<Rightarrow> eval_context \<Rightarrow> bool option) \<Rightarrow> instant \<Rightarrow> eval_context \<Rightarrow> alert \<Rightarrow> alert_event list
     \<Rightarrow> alert \<times> alert_event list" where
  "evaluate_one py_eval now ctx a h =
     (if evaluate py_eval a ctx then
        if \<not> triggered a then
          (case trigger now a ctx of
             (CbReturns, a') \<Rightarrow> (a', record_alert a' ctx h)
           | (CbRaises, a') \<Rightarrow> (a', h))
        else (a, h)
      else (a, h))"

text \<open>
  The loop itself.  \<open>clock i\<close> is what \<^verbatim>\<open>datetime.now()\<close> reads while the rule at
  position \<open>i\<close> is handled.
\<close>

fun evaluate_loop ::
  "(string \<Rightarrow> eval_context \<Rightarrow> bool option) \<Rightarrow> (nat \<Rightarrow> instant) \<Rightarrow> eval_context \<Rightarrow> nat \<Rightarrow> alert list
     \<Rightarrow> alert_event list \<Rightarrow> alert list \<times> alert_event list" where
  "evaluate_loop py_eval clock ctx i [] h = ([], h)"
| "evaluate_loop py_eval clock ctx i (a # as) h =
     (case evaluate_one py_eval (clock i) ctx a h of
        (a', h') \<Rightarrow>
          (case evaluate_loop py_eval clock ctx (Suc i) as h' of
             (as', h'') \<Rightarrow> (a' # as', h'')))"

definition evaluate_alerts ::
  "(string \<Rightarrow> eval_context \<Rightarrow> bool option) \<Rightarrow> (nat \<Rightarrow> instant) \<Rightarrow> eval_context \<Rightarrow> alert_manager
     \<Rightarrow> alert_manager" where
  "evaluate_alerts py_eval clock ctx m =
     (case evaluate_loop py_eval clock ctx 0 (alerts m) (alert_history m) of
        (as, h) \<Rightarrow> m\<lparr>alerts := as, alert_history := h\<rparr>)"

text \<open>A sequence of calls of \<^verbatim>\<open>evaluate_alerts\<close>, each with its own clock and context.\<close>

fun evaluate_many ::
  "(string \<Rightarrow> eval_context \<Rightarrow> bool option) \<Rightarrow> ((nat \<Rightarrow> instant) \<times> eval_context) list \<Rightarrow> alert_manager
     \<Rightarrow> alert_manager" where
  "evaluate_many py_eval [] m = m"
| "evaluate_many py_eval ((clock, ctx) # calls) m =
     evaluate_many py_eval calls (evaluate_alerts py_eval clock ctx m)"

definition add_alert ::
  "string \<Rightarrow> (alert_fields \<Rightarrow> eval_context \<Rightarrow> cb_outcome \<times> alert_fields) option \<Rightarrow> alert_manager
     \<Rightarrow> alert \<times> alert_manager" where
  "add_alert c cb m =
     (let a = \<lparr>condition = c, triggered = False, triggered_at = None, trigger_count = 0,
                callback = cb\<rparr>
      in (a, m\<lparr>alerts := alerts m @ [a]\<rparr>))"

definition remove_alert :: "string \<Rightarrow> alert_manager \<Rightarrow> alert_manager" where
  "remove_alert c m = m\<lparr>alerts := filter (\<lambda>a. condition a \<noteq> c) (alerts m)\<rparr>"

text \<open>
  Notions for stating what one call of \<^verbatim>\<open>evaluate_alerts\<close> does: a rule fires when
  its condition holds and it is not triggered yet; \<open>fired now a\<close> is the rule after
  the writes of \<^verbatim>\<open>trigger\<close>; \<open>keep_last n\<close> is the slice \<^verbatim>\<open>[-n:]\<close>; and \<open>new_events\<close>
  has one event for each rule that fires, in the order of the rules from position \<open>k\<close> on.
\<close>

definition fires :: "(string \<Rightarrow> eval_context \<Rightarrow> bool option) \<Rightarrow> eval_context \<Rightarrow> alert \<Rightarrow> bool" where
  "fires py_eval ctx a = (evaluate py_eval a ctx \<and> \<not> triggered a)"

definition fired :: "instant \<Rightarrow> alert \<Rightarrow> alert" where
  "fired now a =
     a\<lparr>triggered := True, triggered_at := Some now, trigger_count := trigger_count a + 1\<rparr>"

definition keep_last :: "nat \<Rightarrow> 'a list \<Rightarrow> 'a list" where
  "keep_last n xs = drop (length xs - n) xs"

definition new_events ::
  "(string \<Rightarrow> eval_context \<Rightarrow> bool option) \<Rightarrow> (nat \<Rightarrow> instant) \<Rightarrow> eval_context \<Rightarrow> nat \<Rightarrow> alert list
     \<Rightarrow> alert_event list" where
  "new_events py_eval clock ctx k as =
     map (\<lambda>(i, a). event_of (fired (clock i) a) ctx)
       (filter (\<lambda>(i, a). fires py_eval ctx a) (enumerate k as))"

text \<open>
  Sample data: the condition \<^verbatim>\<open>x > 2\<close> of the specification's example, evaluated as
  Python does (an unknown name raises, which \<open>py_eval\<close> reports as \<open>None\<close>).
\<close>

definition sample_eval :: "string \<Rightarrow> eval_context \<Rightarrow> bool option" where
  "sample_eval c ctx =
     (if c = ''x > 2'' then (case ctx ''x'' of Some v \<Rightarrow> Some (v > 2) | None \<Rightarrow> None)
      else None)"

definition sample_rule ::
  "(alert_fields \<Rightarrow> eval_context \<Rightarrow> cb_outcome \<times> alert_fields) option \<Rightarrow> alert" where
  "sample_rule cb =
     \<lparr>condition = ''x > 2'', triggered = False, triggered_at = None, trigger_count = 0,
      callback = cb\<rparr>"

definition sample_ctx :: "real \<Rightarrow> eval_context" where
  "sample_ctx v = [''x'' \<mapsto> v]"

definition sample_clock :: "nat \<Rightarrow> instant" where
  "sample_clock i = 1000 + int i"

text \<open>A callback that raises, and one that returns after setting the rule back to armed.\<close>

definition raising_callback :: "alert_fields \<Rightarrow> eval_context \<Rightarrow> cb_outcome \<times> alert_fields" where
  "raising_callback d data = (CbRaises, d)"

definition rearming_callback :: "alert_fields \<Rightarrow> eval_context \<Rightarrow> cb_outcome \<times> alert_fields" where
  "rearming_callback d data = (CbReturns, d\<lparr>triggered := False\<rparr>)"

section \<open>Collector (src/backend/collector.py)\<close>

text \<open>
  A decoded JSON value, as \<^verbatim>\<open>json.loads\<close> returns it: an integer literal gives a Python
  integer, any other number a float.  An object is a dictionary, given by its items; a key
  is looked up with \<open>map_of\<close>.  The type \<open>'f\<close> stands for the floating-point numbers of
  Python, with their infinities and their NaN; nothing is assumed about it.
\<close>

datatype 'f json =
  JNull
| JBool bool
| JInt int
| JFloat 'f
| JStr string
| JArr "'f json list"
| JObj "(string \<times> 'f json) list"

record 'f tick =
  symbol :: string
  timestamp :: instant
  price :: 'f
  size' :: 'f
  event_time :: "'f json option"
  trade_id :: "'f json option"
  is_buyer_maker :: "'f json"

text \<open>
  What the code takes from Python's library and from its surroundings.  \<open>json_loads\<close> is
  \<^verbatim>\<open>json.loads\<close> (\<open>None\<close>: it raises).  \<open>float_of_int\<close> is \<^verbatim>\<open>float\<close> on an integer
  (\<open>None\<close>: \<^verbatim>\<open>OverflowError\<close>, the integer is too large for a float) and
  \<open>float_of_string\<close> is \<^verbatim>\<open>float\<close> on a string (\<open>None\<close>: \<^verbatim>\<open>ValueError\<close>).
  \<open>int_div_1000\<close> is \<^verbatim>\<open>n / 1000\<close> on an integer (\<open>None\<close>: \<^verbatim>\<open>OverflowError\<close>) and
  \<open>float_div_1000\<close> is \<^verbatim>\<open>x / 1000\<close> on a float.  \<open>fromtimestamp\<close> is
  \<^verbatim>\<open>datetime.fromtimestamp\<close> on a number of seconds (\<open>None\<close>: it raises, the value is
  not a time of the platform's range).  \<open>time_ms\<close> is the value of
  \<^verbatim>\<open>time.time() * 1000\<close>, and \<open>str_lower\<close> is \<^verbatim>\<open>str.lower\<close>.
\<close>

record 'f py_env =
  json_loads :: "string \<Rightarrow> 'f json option"
  float_of_int :: "int \<Rightarrow> 'f option"
  float_of_string :: "string \<Rightarrow> 'f option"
  int_div_1000 :: "int \<Rightarrow> 'f option"
  float_div_1000 :: "'f \<Rightarrow> 'f"
  fromtimestamp :: "'f \<Rightarrow> instant option"
  time_ms :: 'f
  str_lower :: "string \<Rightarrow> string"

text \<open>\<^verbatim>\<open>dict.get(key, default)\<close>.\<close>

definition dict_get :: "(string \<times> 'f json) list \<Rightarrow> string \<Rightarrow> 'f json \<Rightarrow> 'f json" where
  "dict_get d k dflt = (case map_of d k of Some v \<Rightarrow> v | None \<Rightarrow> dflt)"

text \<open>
  \<^verbatim>\<open>float(v)\<close>: an integer converts unless it is too large, a float is taken as it is,
  a Boolean is an integer in Python, a string is parsed, anything else is a
  \<^verbatim>\<open>TypeError\<close>.
\<close>

definition py_float :: "'f py_env \<Rightarrow> 'f json \<Rightarrow> 'f option" where
  "py_float env v =
     (case v of
        JInt n \<Rightarrow> float_of_int env n
      | JFloat x \<Rightarrow> Some x
      | JBool b \<Rightarrow> float_of_int env (if b then 1 else 0)
      | JStr s \<Rightarrow> float_of_string env s
      | _ \<Rightarrow> None)"

text \<open>
  \<^verbatim>\<open>v / 1000\<close>: defined on numbers (and Booleans) unless the integer is too large, a
  \<^verbatim>\<open>TypeError\<close> otherwise.
\<close>

definition py_div_1000 :: "'f py_env \<Rightarrow> 'f json \<Rightarrow> 'f option" where
  "py_div_1000 env v =
     (case v of
        JInt n \<Rightarrow> int_div_1000 env n
      | JFloat x \<Rightarrow> Some (float_div_1000 env x)
      | JBool b \<Rightarrow> int_div_1000 env (if b then 1 else 0)
      | _ \<Rightarrow> None)"

text \<open>\<^verbatim>\<open>v.lower()\<close>: a value that is no string has no such method.\<close>

definition py_lower :: "'f py_env \<Rightarrow> 'f json \<Rightarrow> string option" where
  "py_lower env v = (case v of JStr s \<Rightarrow> Some (str_lower env s) | _ \<Rightarrow> None)"

text \<open>
  \<^verbatim>\<open>BinanceCollector._normalize_tick\<close>.  The time stamp is taken from \<^verbatim>\<open>T\<close>, else
  from \<^verbatim>\<open>E\<close>, else from the local clock.  The whole body stands in one \<^verbatim>\<open>try\<close>: any
  failing step gives \<open>None\<close>.
\<close>

definition normalize_tick :: "'f py_env \<Rightarrow> (string \<times> 'f json) list \<Rightarrow> 'f tick option" where
  "normalize_tick env data =
     (case py_div_1000 env (dict_get data ''T'' (dict_get data ''E'' (JFloat (time_ms env)))) of
        None \<Rightarrow> None
      | Some secs \<Rightarrow>
     (case fromtimestamp env secs of
        None \<Rightarrow> None
      | Some ts \<Rightarrow>
     (case py_lower env (dict_get data ''s'' (JStr [])) of
        None \<Rightarrow> None
      | Some lowered \<Rightarrow>
     (case py_float env (dict_get data ''p'' (JInt 0)) of
        None \<Rightarrow> None
      | Some p \<Rightarrow>
     (case py_float env (dict_get data ''q'' (JInt 0)) of
        None \<Rightarrow> None
      | Some q \<Rightarrow>
          Some \<lparr>symbol = lowered, timestamp = ts, price = p, size' = q,
                event_time = map_of data ''T'', trade_id = map_of data ''t'',
                is_buyer_maker = dict_get data ''m'' (JBool False)\<rparr>)))))"

text \<open>
  The collector: its symbols, the running flag, one connection (given by its URL) per
  symbol, and the buffer.  The buffer is read and written under \<^verbatim>\<open>buffer_lock\<close> only, so
  every operation on it below is one atomic step, and a run of the threads is a sequence
  of such steps.
\<close>

record 'f collector =
  symbols :: "string list"
  running :: bool
  ws_connections :: "string list"
  message_buffer :: "'f tick list"

text \<open>
  \<^verbatim>\<open>BinanceCollector._on_message\<close>: a message that does not decode, a value without
  \<^verbatim>\<open>get\<close> (anything but an object), an event other than a trade and a tick that does
  not normalise all leave the buffer as it is.  The callback runs after the tick is
  stored, and an exception it raises is caught; it does not touch the buffer.
\<close>

definition on_message :: "'f py_env \<Rightarrow> string \<Rightarrow> 'f collector \<Rightarrow> 'f collector" where
  "on_message env message c =
     (case json_loads env message of
        None \<Rightarrow> c
      | Some (JObj data) \<Rightarrow>
          (if map_of data ''e'' = Some (JStr ''trade'') then
             (case normalize_tick env data of
                Some normalized \<Rightarrow> c\<lparr>message_buffer := message_buffer c @ [normalized]\<rparr>
              | None \<Rightarrow> c)
           else c)
      | Some _ \<Rightarrow> c)"

fun on_messages :: "'f py_env \<Rightarrow> string list \<Rightarrow> 'f collector \<Rightarrow> 'f collector" where
  "on_messages env [] c = c"
| "on_messages env (m # ms) c = on_messages env ms (on_message env m c)"

text \<open>
  \<^verbatim>\<open>BinanceCollector.start\<close> and \<^verbatim>\<open>stop\<close>.  Both return \<^verbatim>\<open>None\<close> on every path; the
  result of a call is \<open>Inr ()\<close> for a normal return and \<open>Inl e\<close> for an exception that
  reaches the caller.
\<close>

datatype py_exception = PyException string

definition connection_url :: "string \<Rightarrow> string" where
  "connection_url s = ''wss://fstream.binance.com/ws/'' @ s @ ''@trade''"

definition start :: "'f collector \<Rightarrow> (py_exception + unit) \<times> 'f collector" where
  "start c =
     (if running c then (Inr (), c)
      else (Inr (), c\<lparr>running := True, ws_connections := map connection_url (symbols c)\<rparr>))"

definition stop :: "'f collector \<Rightarrow> (py_exception + unit) \<times> 'f collector" where
  "stop c = (Inr (), c\<lparr>running := False, ws_connections := []\<rparr>)"

definition get_buffered_messages :: "bool \<Rightarrow> 'f collector \<Rightarrow> 'f tick list \<times> 'f collector" where
  "get_buffered_messages clear c =
     (message_buffer c, if clear then c\<lparr>message_buffer := []\<rparr> else c)"

definition get_message_count :: "'f collector \<Rightarrow> int" where
  "get_message_count c = int (length (message_buffer c))"

text \<open>
  Sample data: the trade message of the doc comment, once with a broken trade time, and
  an environment in which floats are real numbers and \<^verbatim>\<open>str.lower\<close> acts on ASCII
  letters.
\<close>

definition sample_trade :: "real json \<Rightarrow> (string \<times> real json) list" where
  "sample_trade t =
     [(''e'', JStr ''trade''), (''E'', JInt 123456789), (''s'', JStr ''BTCUSDT''),
      (''t'', JInt 12345), (''p'', JStr ''40000.00''), (''q'', JStr ''0.1''),
      (''T'', t), (''m'', JBool True)]"

definition lower_char :: "char \<Rightarrow> char" where
  "lower_char c =
     (case map_of (zip ''ABCDEFGHIJKLMNOPQRSTUVWXYZ'' ''abcdefghijklmnopqrstuvwxyz'') c of
        Some l \<Rightarrow> l
      | None \<Rightarrow> c)"

definition sample_env :: "real py_env" where
  "sample_env =
     \<lparr>json_loads = (\<lambda>s. if s = ''good'' then Some (JObj (sample_trade (JInt 123456789)))
                          else if s = ''bad time'' then Some (JObj (sample_trade (JStr ''abc'')))
                          else None),
      float_of_int = (\<lambda>n. Some (of_int n)),
      float_of_string = (\<lambda>s. if s = ''40000.00'' then Some 40000
                               else if s = ''0.1'' then Some (1 / 10) else None),
      int_div_1000 = (\<lambda>n. Some (of_int n / 1000)),
      float_div_1000 = (\<lambda>x. x / 1000),
      fromtimestamp = (\<lambda>x. if 0 \<le> x \<and> x \<le> 253402300799 then Some (\<lfloor>x * 1000000\<rfloor>) else None),
      time_ms = 1700000000000,
      str_lower = map lower_char\<rparr>"

definition sample_collector :: "real collector" where
  "sample_collector =
     \<lparr>symbols = [''btcusdt''], running = True,
      ws_connections = [connection_url ''btcusdt''], message_buffer = []\<rparr>"

text \<open>
  The tick, if any, that \<^verbatim>\<open>_on_message\<close> stores for a message: the message decodes
  to an object, the object is a trade event, and the tick normalises.
\<close>

definition accepted_tick :: "'f py_env \<Rightarrow> string \<Rightarrow> 'f tick option" where
  "accepted_tick env message =
     (case json_loads env message of
        Some (JObj data) \<Rightarrow>
          (if map_of data ''e'' = Some (JStr ''trade'') then normalize_tick env data else None)
      | _ \<Rightarrow> None)"

section \<open>Analytics engine (src/analytics/engine.py)\<close>

text \<open>
  A series without its index is the list of its values, \<open>None\<close> being the missing value
  (NaN).  For the rolling z-score, arithmetic on floating-point numbers is idealised as
  arithmetic on real numbers; the special values that a division produces are kept apart
  in \<open>fval\<close>.
\<close>

datatype fval = Fin real | NaN | PosInf | NegInf

datatype py_error = ValueError

definition dropna :: "'a option list \<Rightarrow> 'a list" where
  "dropna xs = List.map_filter (\<lambda>x. x) xs"

text \<open>
  \<^verbatim>\<open>series.rolling(window=w)\<close> at position \<open>i\<close>: the values of the last \<open>w\<close> positions
  up to \<open>i\<close>, or nothing when fewer than \<open>w\<close> positions exist.  The minimal number of
  observations is the window size, so a window with a missing value gives no result.
\<close>

definition window_at :: "real option list \<Rightarrow> nat \<Rightarrow> nat \<Rightarrow> real list option" where
  "window_at xs w i =
     (if i + 1 < w then None
      else (let win = take w (drop (i + 1 - w) xs)
            in if length (dropna win) < w then None else Some (dropna win)))"

text \<open>Rolling mean: no value for an empty window.\<close>

definition rolling_mean :: "real option list \<Rightarrow> nat \<Rightarrow> real option list" where
  "rolling_mean xs w =
     map (\<lambda>i. case window_at xs w i of
                 None \<Rightarrow> None
               | Some vs \<Rightarrow> if vs = [] then None else Some (sum_list vs / real (length vs)))
         [0..<length xs]"

text \<open>
  Rolling standard deviation with one degree of freedom removed: no value unless the
  window has more than one observation.
\<close>

definition rolling_std :: "real option list \<Rightarrow> nat \<Rightarrow> real option list" where
  "rolling_std xs w =
     map (\<lambda>i. case window_at xs w i of
                 None \<Rightarrow> None
               | Some vs \<Rightarrow>
                   if length vs \<le> 1 then None
                   else (let m = sum_list vs / real (length vs)
                         in Some (sqrt (sum_list (map (\<lambda>v. (v - m)\<^sup>2) vs) / real (length vs - 1)))))
         [0..<length xs]"

text \<open>
  One entry of \<^verbatim>\<open>(series - rolling_mean) / rolling_std\<close>: a missing operand gives NaN,
  and so does 0/0; a non-zero numerator over 0 gives an infinity.
\<close>

definition zscore_at :: "real option \<Rightarrow> real option \<Rightarrow> real option \<Rightarrow> fval" where
  "zscore_at x m s =
     (case (x, m, s) of
        (Some x', Some m', Some s') \<Rightarrow>
          if s' = 0 then (if x' - m' = 0 then NaN else if x' - m' > 0 then PosInf else NegInf)
          else Fin ((x' - m') / s')
      | _ \<Rightarrow> NaN)"

text \<open>
  \<^verbatim>\<open>AnalyticsEngine.compute_zscore\<close>.  A series shorter than the window gives the empty
  series; a negative window passes that test and makes \<^verbatim>\<open>rolling\<close> raise.
\<close>

definition compute_zscore :: "real option list \<Rightarrow> int \<Rightarrow> py_error + fval list" where
  "compute_zscore series window =
     (if int (length series) < window then Inr []
      else if window < 0 then Inl ValueError
      else (let rm = rolling_mean series (nat window);
                rs = rolling_std series (nat window)
            in Inr (map (\<lambda>i. zscore_at (series ! i) (rm ! i) (rs ! i)) [0..<length series])))"

text \<open>
  \<^verbatim>\<open>AnalyticsEngine.compute_adf_test\<close>.  The test itself, \<^verbatim>\<open>adfuller\<close> of statsmodels,
  is a parameter: it yields the statistic, the p-value and the critical values at 1%, 5%
  and 10%, or \<open>None\<close> when it raises.
\<close>

record adf_result =
  adf_statistic :: real
  pvalue :: real
  critical_values :: "(string \<times> real) list"
  is_stationary :: bool

definition adf_sentinel :: adf_result where
  "adf_sentinel =
     \<lparr>adf_statistic = 0, pvalue = 1, critical_values = [], is_stationary = False\<rparr>"

definition compute_adf_test ::
  "(real list \<Rightarrow> (real \<times> real \<times> real \<times> real \<times> real) option) \<Rightarrow> real option list \<Rightarrow> adf_result" where
  "compute_adf_test adfuller series =
     (if length series < 10 then adf_sentinel
      else (let series_clean = dropna series
            in if length series_clean < 10 then adf_sentinel
               else (case adfuller series_clean of
                       Some (stat, p, c1, c5, c10) \<Rightarrow>
                         \<lparr>adf_statistic = stat, pvalue = p,
                          critical_values = [(''1%'', c1), (''5%'', c5), (''10%'', c10)],
                          is_stationary = (p < 0.05)\<rparr>
                     | None \<Rightarrow> adf_sentinel)))"

text \<open>
  A series with its index: pairs of a label and a value, \<open>None\<close> being NaN.  The labels of
  a series are taken to be distinct, as those of a price series are.  \<open>aligned\<close> is the
  frame built from two series with the rows that have a missing value dropped: the labels
  present in both series with a value in both.
\<close>

type_synonym 'f series = "(instant \<times> 'f option) list"





text \<open>
  Sample data: the computations in exact arithmetic on real numbers.  The least-squares
  solution is the fitted line when the second series varies, and the solution of least
  norm when it is constant (the design matrix then has rank 1).  Floating-point arithmetic
  agrees with these up to rounding.
\<close>

definition mean :: "real list \<Rightarrow> real" where
  "mean xs = sum_list xs / real (length xs)"

definition sum_sq_dev :: "real list \<Rightarrow> real" where
  "sum_sq_dev xs = sum_list (map (\<lambda>x. (x - mean xs)\<^sup>2) xs)"

definition exact_lstsq :: "(real \<times> real) list \<Rightarrow> real \<times> real" where
  "exact_lstsq rows =
     (let xs = map snd rows; ys = map fst rows;
          sxx = sum_sq_dev xs;
          sxy = sum_list (map (\<lambda>(y, x). (x - mean xs) * (y - mean ys)) rows)
      in if sxx \<noteq> 0 then (mean ys - (sxy / sxx) * mean xs, sxy / sxx)
         else (mean ys / (1 + (mean xs)\<^sup>2), mean ys * mean xs / (1 + (mean xs)\<^sup>2)))"


text \<open>Sample data: a test that would report stationarity for every series.\<close>

definition sample_adfuller :: "real list \<Rightarrow> (real \<times> real \<times> real \<times> real \<times> real) option" where
  "sample_adfuller xs = Some (- 4, 1 / 100, - 3.4, - 2.9, - 2.6)"

section \<open>Resampler (src/backend/resampler.py)\<close>

text \<open>
  The rows of the frame are ticks whose \<open>timestamp\<close> is the instant that
  \<^verbatim>\<open>pd.to_datetime\<close> reads from the tick's text.  A time frame is the length of the
  frequency that pandas reads from the time-frame text, in microseconds; the table below
  is the one of \<^verbatim>\<open>get_timeframe_seconds\<close>.  A price of a bar may be missing (NaN), which
  is \<open>None\<close>.
\<close>

record bar =
  bar_symbol :: string
  bar_timestamp :: instant
  bar_open :: "real option"
  bar_high :: "real option"
  bar_low :: "real option"
  bar_close :: "real option"
  volume :: real
  trade_count :: int
  timeframe :: int

definition timeframe_map :: "(string \<times> int) list" where
  "timeframe_map =
     [(''1s'', 1), (''1min'', 60), (''5min'', 300), (''15min'', 900), (''1h'', 3600),
      (''1d'', 86400)]"

definition get_timeframe_seconds :: "string \<Rightarrow> int" where
  "get_timeframe_seconds tf = (case map_of timeframe_map tf of Some n \<Rightarrow> n | None \<Rightarrow> 60)"

definition second_us :: int where
  "second_us = 1000000"

definition day_us :: int where
  "day_us = 86400 * second_us"

text \<open>\<^verbatim>\<open>ticks_to_dataframe\<close>: the ticks as rows, sorted by time stamp.\<close>

definition ticks_to_dataframe :: "real tick list \<Rightarrow> real tick list" where
  "ticks_to_dataframe ticks = sort_key timestamp ticks"

text \<open>
  The bins of \<^verbatim>\<open>resample\<close> for a frequency of fixed length \<open>T\<close>, with the defaults of
  pandas: bins closed and labelled on the left, anchored at the origin \<^verbatim>\<open>start_day\<close>,
  which is midnight of the day of the first row.  The first bin starts at the last
  multiple of \<open>T\<close> after the origin that is not after the first row; bins follow one
  another up to the one that holds the last row, with or without rows in them.
\<close>

definition first_edge :: "int \<Rightarrow> int \<Rightarrow> int" where
  "first_edge T first = (let origin = (first div day_us) * day_us
                         in first - ((first - origin) mod T))"

definition bin_count :: "int \<Rightarrow> int \<Rightarrow> int \<Rightarrow> nat" where
  "bin_count T edge lst = nat ((lst - edge) div T + 1)"

definition bin_labels :: "int \<Rightarrow> int \<Rightarrow> int \<Rightarrow> int list" where
  "bin_labels T first lst =
     map (\<lambda>k. first_edge T first + int k * T) [0..<bin_count T (first_edge T first) lst]"

definition group_of :: "real tick list \<Rightarrow> int \<Rightarrow> int \<Rightarrow> real tick list" where
  "group_of df T l = filter (\<lambda>t. l \<le> timestamp t \<and> timestamp t < l + T) df"

text \<open>The aggregates of one bin; \<^verbatim>\<open>ohlc\<close> of a bin without rows is missing.\<close>

definition open_of :: "real tick list \<Rightarrow> real option" where
  "open_of g = (case g of [] \<Rightarrow> None | t # ts \<Rightarrow> Some (price t))"

definition high_of :: "real tick list \<Rightarrow> real option" where
  "high_of g = (case g of [] \<Rightarrow> None | t # ts \<Rightarrow> Some (fold max (map price ts) (price t)))"

definition low_of :: "real tick list \<Rightarrow> real option" where
  "low_of g = (case g of [] \<Rightarrow> None | t # ts \<Rightarrow> Some (fold min (map price ts) (price t)))"

definition close_of :: "real tick list \<Rightarrow> real option" where
  "close_of g = (case g of [] \<Rightarrow> None | t # ts \<Rightarrow> Some (price (last g)))"

text \<open>
  \<^verbatim>\<open>bfill\<close> on one column: a missing value is replaced by the next value below it that
  is not missing, and stays missing when there is none.
\<close>

fun bfill :: "'a option list \<Rightarrow> 'a option list" where
  "bfill [] = []"
| "bfill (Some v # xs) = Some v # bfill xs"
| "bfill (None # xs) = (case bfill xs of [] \<Rightarrow> [None] | y # ys \<Rightarrow> y # y # ys)"

text \<open>
  \<^verbatim>\<open>DataResampler.resample_to_ohlc\<close>.  The four price columns, the volume column and the
  count column are put side by side, \<^verbatim>\<open>bfill\<close> runs over every column (the volume and
  the count have no missing value, so it changes the price columns only), and each row
  becomes a bar.  The volume of a bin is the sum of the sizes of its rows as pandas
  computes it in floating-point arithmetic: that summation is the parameter \<open>fsum\<close>, which
  takes the sizes in the order of the rows; a bin without rows has the volume 0.  First,
  last, maximum and minimum of the prices and the count involve no rounding.  A time frame
  that is not positive makes \<^verbatim>\<open>resample\<close> raise.
\<close>

definition resample_to_ohlc_with ::
  "(real list \<Rightarrow> real) \<Rightarrow> real tick list \<Rightarrow> int \<Rightarrow> py_error + bar list" where
  "resample_to_ohlc_with fsum ticks T =
     (if ticks = [] then Inr []
      else (case ticks_to_dataframe ticks of
              [] \<Rightarrow> Inr []
            | t0 # rest \<Rightarrow>
                if T \<le> 0 then Inl ValueError
                else (let df = t0 # rest;
                          labels = bin_labels T (timestamp t0) (timestamp (last df));
                          groups = map (group_of df T) labels;
                          opens = bfill (map open_of groups);
                          highs = bfill (map high_of groups);
                          lows = bfill (map low_of groups);
                          closes = bfill (map close_of groups);
                          volumes = map (\<lambda>g. if g = [] then 0 else fsum (map size' g)) groups;
                          counts = map (\<lambda>g. int (length g)) groups
                      in Inr (map (\<lambda>k. \<lparr>bar_symbol = symbol t0, bar_timestamp = labels ! k,
                                           bar_open = opens ! k, bar_high = highs ! k,
                                           bar_low = lows ! k, bar_close = closes ! k,
                                           volume = volumes ! k, trade_count = counts ! k,
                                           timeframe = T\<rparr>)
                                [0..<length labels]))))"

text \<open>
  The resampler with a summation that does not round.  Every floating-point summation
  agrees with it on the bins with at most one row, and wherever the sum of the sizes of a
  bin is computed without rounding.
\<close>

definition resample_to_ohlc :: "real tick list \<Rightarrow> int \<Rightarrow> py_error + bar list" where
  "resample_to_ohlc ticks T = resample_to_ohlc_with sum_list ticks T"

definition aggregate_ticks ::
  "(real list \<Rightarrow> real) \<Rightarrow> real tick list \<Rightarrow> int \<Rightarrow> py_error + bar list" where
  "aggregate_ticks fsum ticks T = resample_to_ohlc_with fsum ticks T"

text \<open>Sample data: a tick of the symbol \<^verbatim>\<open>btcusdt\<close> at a given second.\<close>

definition sample_tick :: "int \<Rightarrow> real \<Rightarrow> real \<Rightarrow> real tick" where
  "sample_tick secs p q =
     \<lparr>symbol = ''btcusdt'', timestamp = secs * second_us, price = p, size' = q,
      event_time = None, trade_id = None, is_buyer_maker = JBool False\<rparr>"


section \<open>Properties of the alert manager\<close>

lemma remove_alert_alerts:
  "alerts (remove_alert c m) = filter (\<lambda>a. condition a \<noteq> c) (alerts m)"
  by (simp add: remove_alert_def)

text \<open>
  Claim C10.  \<^verbatim>\<open>remove_alert(c)\<close> removes every rule whose condition is exactly \<open>c\<close>
  (all of them), keeps every other rule with its state, in the same relative order, and
  leaves the history as it was.
\<close>

theorem remove_alert_removes_all_matching:
  "(\<forall>a \<in> set (alerts (remove_alert c m)). condition a \<noteq> c)
   \<and> subseq (alerts (remove_alert c m)) (alerts m)
   \<and> filter (\<lambda>a. condition a \<noteq> c) (alerts (remove_alert c m))
       = filter (\<lambda>a. condition a \<noteq> c) (alerts m)
   \<and> length (alerts (remove_alert c m))
       = length (alerts m) - length (filter (\<lambda>a. condition a = c) (alerts m))
   \<and> alert_history (remove_alert c m) = alert_history m"
proof -
  let ?keep = "\<lambda>a. condition a \<noteq> c"
  have len: "length (alerts m)
               = length (filter ?keep (alerts m)) + length (filter (\<lambda>a. condition a = c) (alerts m))"
    using sum_length_filter_compl [of "\<lambda>a. condition a = c" "alerts m"] by simp
  have "\<forall>a \<in> set (filter ?keep (alerts m)). condition a \<noteq> c" by simp
  moreover have "subseq (filter ?keep (alerts m)) (alerts m)" by simp
  moreover have "filter ?keep (filter ?keep (alerts m)) = filter ?keep (alerts m)" by simp
  moreover have "length (filter ?keep (alerts m))
                   = length (alerts m) - length (filter (\<lambda>a. condition a = c) (alerts m))"
    using len by linarith
  moreover have "alert_history (remove_alert c m) = alert_history m"
    by (simp add: remove_alert_def)
  ultimately show ?thesis
    by (simp only: remove_alert_alerts)
qed

theorem remove_alert_removes_all_matching_witness:
  "alerts (remove_alert ''x > 2''
        \<lparr>alerts = [sample_rule None, (sample_rule None)\<lparr>condition := ''y < 1'', triggered := True\<rparr>,
                   sample_rule None], alert_history = []\<rparr>)
      = [(sample_rule None)\<lparr>condition := ''y < 1'', triggered := True\<rparr>]
   \<and> alert_history (remove_alert ''x > 2''
        \<lparr>alerts = [sample_rule None, (sample_rule None)\<lparr>condition := ''y < 1'', triggered := True\<rparr>,
                   sample_rule None], alert_history = []\<rparr>) = []"
  using remove_alert_removes_all_matching [of "''x > 2''"
      "\<lparr>alerts = [sample_rule None, (sample_rule None)\<lparr>condition := ''y < 1'', triggered := True\<rparr>,
                  sample_rule None], alert_history = []\<rparr>"]
  by (simp add: remove_alert_def sample_rule_def)

section \<open>Properties of the collector\<close>

lemma on_message_accepted:
  "on_message env message c =
     (case accepted_tick env message of
        Some t \<Rightarrow> c\<lparr>message_buffer := message_buffer c @ [t]\<rparr>
      | None \<Rightarrow> c)"
  by (simp add: on_message_def accepted_tick_def split: option.splits json.splits)

lemma on_messages_buffer:
  "on_messages env ms c
     = c\<lparr>message_buffer := message_buffer c @ List.map_filter (accepted_tick env) ms\<rparr>"
proof (induction ms arbitrary: c)
  case Nil
  then show ?case by simp
next
  case (Cons m ms)
  show ?case
    by (simp add: Cons.IH on_message_accepted split: option.splits)
qed

text \<open>
  Claim C5.  \<^verbatim>\<open>get_buffered_messages(clear=True)\<close> returns exactly the buffered ticks and
  leaves an empty buffer (nothing else of the collector changes), so the count that follows
  is 0, and the next drain, after any messages \<open>ms\<close> have been handled, returns exactly
  the ticks stored for \<open>ms\<close>: no tick from before the first drain comes back.
\<close>

theorem drain_clear_returns_all_and_empties:
  "fst (get_buffered_messages True c) = message_buffer c
   \<and> snd (get_buffered_messages True c) = c\<lparr>message_buffer := []\<rparr>
   \<and> get_message_count (snd (get_buffered_messages True c)) = 0
   \<and> fst (get_buffered_messages clear (snd (get_buffered_messages True c))) = []
   \<and> fst (get_buffered_messages clear (on_messages env ms (snd (get_buffered_messages True c))))
       = List.map_filter (accepted_tick env) ms"
  by (simp add: get_buffered_messages_def get_message_count_def on_messages_buffer)

text \<open>
  Claim C7, as the code has it.  \<^verbatim>\<open>start\<close> on a running collector changes nothing and
  returns normally, with the value \<^verbatim>\<open>None\<close> that a successful start returns as well.
\<close>

theorem start_while_running_changes_nothing:
  "running c \<Longrightarrow> start c = (Inr (), c)"
  by (simp add: start_def)

theorem start_while_running_changes_nothing_witness:
  "running sample_collector \<and> start sample_collector = (Inr (), sample_collector)"
  using start_while_running_changes_nothing [of sample_collector]
  by (simp add: sample_collector_def)

text \<open>
  Claim C7 as stated fails: the call on a running collector yields no error, and its result
  is the result of the successful call on the stopped collector.
\<close>

theorem start_while_running_reports_no_error:
  "running sample_collector
   \<and> fst (start sample_collector) = Inr ()
   \<and> fst (start (sample_collector\<lparr>running := False\<rparr>)) = fst (start sample_collector)"
  by (simp add: start_def sample_collector_def)

lemma normalize_tick_Some_iff:
  "(normalize_tick env data \<noteq> None) =
     (\<exists>secs. py_div_1000 env (dict_get data ''T'' (dict_get data ''E'' (JFloat (time_ms env))))
               = Some secs
        \<and> fromtimestamp env secs \<noteq> None
        \<and> py_lower env (dict_get data ''s'' (JStr [])) \<noteq> None
        \<and> py_float env (dict_get data ''p'' (JInt 0)) \<noteq> None
        \<and> py_float env (dict_get data ''q'' (JInt 0)) \<noteq> None)"
  by (auto simp add: normalize_tick_def split: option.splits)

text \<open>
  Claim C6, as the code has it.  A message adds a tick to the buffer exactly when it decodes
  to an object whose \<^verbatim>\<open>e\<close> is \<^verbatim>\<open>trade\<close>, its time field (\<^verbatim>\<open>T\<close>, else \<^verbatim>\<open>E\<close>, else
  the local clock) can be divided by 1000 and \<^verbatim>\<open>fromtimestamp\<close> accepts the result, its
  symbol (the empty string when absent) is a string, and \<^verbatim>\<open>float\<close> accepts its price
  and its size, each being the integer 0 when absent.  \<^verbatim>\<open>float\<close> accepts an integer that
  is not too large, a float, a Boolean and a string that it can parse.  In every other case
  the message is dropped and the collector is unchanged.
\<close>

theorem on_message_stores_tick_iff:
  "((\<exists>t. message_buffer (on_message env message c) = message_buffer c @ [t]) =
     (\<exists>data secs. json_loads env message = Some (JObj data)
        \<and> map_of data ''e'' = Some (JStr ''trade'')
        \<and> py_div_1000 env (dict_get data ''T'' (dict_get data ''E'' (JFloat (time_ms env))))
            = Some secs
        \<and> fromtimestamp env secs \<noteq> None
        \<and> py_lower env (dict_get data ''s'' (JStr [])) \<noteq> None
        \<and> py_float env (dict_get data ''p'' (JInt 0)) \<noteq> None
        \<and> py_float env (dict_get data ''q'' (JInt 0)) \<noteq> None))
   \<and> ((\<nexists>t. message_buffer (on_message env message c) = message_buffer c @ [t])
        \<longrightarrow> on_message env message c = c)"
proof -
  have acc: "(accepted_tick env message \<noteq> None) =
     (\<exists>data secs. json_loads env message = Some (JObj data)
        \<and> map_of data ''e'' = Some (JStr ''trade'')
        \<and> py_div_1000 env (dict_get data ''T'' (dict_get data ''E'' (JFloat (time_ms env))))
            = Some secs
        \<and> fromtimestamp env secs \<noteq> None
        \<and> py_lower env (dict_get data ''s'' (JStr [])) \<noteq> None
        \<and> py_float env (dict_get data ''p'' (JInt 0)) \<noteq> None
        \<and> py_float env (dict_get data ''q'' (JInt 0)) \<noteq> None)"
    using normalize_tick_Some_iff [of env]
    by (auto simp add: accepted_tick_def split: option.splits json.splits)
  have buf: "(\<exists>t. message_buffer (on_message env message c) = message_buffer c @ [t])
               = (accepted_tick env message \<noteq> None)"
    by (auto simp add: on_message_accepted split: option.splits)
  have same: "accepted_tick env message = None \<Longrightarrow> on_message env message c = c"
    by (simp add: on_message_accepted)
  show ?thesis
    using acc buf same by blast
qed

theorem on_message_stores_tick_iff_witness:
  "message_buffer (on_message sample_env ''good'' sample_collector)
     = message_buffer sample_collector
       @ [\<lparr>symbol = ''btcusdt'', timestamp = 123456789000, price = 40000, size' = 1 / 10,
            event_time = Some (JInt 123456789), trade_id = Some (JInt 12345),
            is_buyer_maker = JBool True\<rparr>]
   \<and> on_message sample_env ''not json'' sample_collector = sample_collector"
  using on_message_stores_tick_iff [of sample_env "''good''" sample_collector]
    on_message_stores_tick_iff [of sample_env "''not json''" sample_collector]
  by (simp add: on_message_def sample_env_def sample_trade_def normalize_tick_def dict_get_def
      py_div_1000_def py_float_def py_lower_def lower_char_def sample_collector_def)

text \<open>
  Claim C6 as stated fails: this message is a trade event whose price and size convert to
  numbers, and still no tick is produced, because its trade time is not a number.
\<close>

theorem on_message_drops_trade_with_bad_time:
  "json_loads sample_env ''bad time'' = Some (JObj (sample_trade (JStr ''abc'')))
   \<and> map_of (sample_trade (JStr ''abc'')) ''e'' = Some (JStr ''trade'')
   \<and> py_float sample_env (dict_get (sample_trade (JStr ''abc'')) ''p'' (JInt 0)) = Some 40000
   \<and> py_float sample_env (dict_get (sample_trade (JStr ''abc'')) ''q'' (JInt 0)) = Some (1 / 10)
   \<and> normalize_tick sample_env (sample_trade (JStr ''abc'')) = None
   \<and> on_message sample_env ''bad time'' sample_collector = sample_collector"
  by (simp add: on_message_def sample_env_def sample_trade_def normalize_tick_def dict_get_def
      py_div_1000_def py_float_def)

lemma record_alert_keep_last: "record_alert a data h = keep_last 1000 (h @ [event_of a data])"
  by (simp add: record_alert_def keep_last_def Let_def)

lemma keep_last_append: "keep_last n (keep_last n xs @ ys) = keep_last n (xs @ ys)"
proof (cases "length xs \<le> n")
  case True
  then show ?thesis by (simp add: keep_last_def)
next
  case False
  then have "length xs + length ys - (length xs - n + n) + (length xs - n)
               = length xs + length ys - n"
    by arith
  then show ?thesis by (simp add: keep_last_def)
qed

lemma evaluate_one_no_callback:
  assumes "callback a = None"
  shows "evaluate_one pe now ctx a h =
     (if fires pe ctx a
      then (fired now a, keep_last 1000 (h @ [event_of (fired now a) ctx])) else (a, h))"
  using assms
  by (simp add: evaluate_one_def fires_def fired_def trigger_def run_callback_def
      record_alert_keep_last)

lemma loop_Cons_fst:
  "fst (evaluate_loop pe clock ctx k (a # as) h)
     = fst (evaluate_one pe (clock k) ctx a h)
       # fst (evaluate_loop pe clock ctx (Suc k) as (snd (evaluate_one pe (clock k) ctx a h)))"
  by (simp split: prod.splits)

lemma loop_Cons_snd:
  "snd (evaluate_loop pe clock ctx k (a # as) h)
     = snd (evaluate_loop pe clock ctx (Suc k) as (snd (evaluate_one pe (clock k) ctx a h)))"
  by (simp split: prod.splits)

lemma loop_alerts:
  assumes "\<forall>a \<in> set as. callback a = None"
  shows "fst (evaluate_loop pe clock ctx k as h)
     = map (\<lambda>(i, a). if fires pe ctx a then fired (clock i) a else a) (enumerate k as)"
  using assms
proof (induction as arbitrary: k h)
  case Nil
  then show ?case by simp
next
  case (Cons a as)
  have a: "callback a = None" and as: "\<forall>a \<in> set as. callback a = None"
    using Cons.prems by simp_all
  show ?case
    unfolding loop_Cons_fst evaluate_one_no_callback [OF a]
    by (simp add: Cons.IH [OF as])
qed

lemma loop_history:
  assumes "\<forall>a \<in> set as. callback a = None"
  shows "snd (evaluate_loop pe clock ctx k as h)
     = (if new_events pe clock ctx k as = [] then h
        else keep_last 1000 (h @ new_events pe clock ctx k as))"
  using assms
proof (induction as arbitrary: k h)
  case Nil
  then show ?case by (simp add: new_events_def)
next
  case (Cons a as)
  have a: "callback a = None" and as: "\<forall>a \<in> set as. callback a = None"
    using Cons.prems by simp_all
  let ?h' = "snd (evaluate_one pe (clock k) ctx a h)"
  have step: "snd (evaluate_loop pe clock ctx k (a # as) h)
                = snd (evaluate_loop pe clock ctx (Suc k) as ?h')"
    by (rule loop_Cons_snd)
  show ?case
  proof (cases "fires pe ctx a")
    case True
    then have h': "?h' = keep_last 1000 (h @ [event_of (fired (clock k) a) ctx])"
      by (simp add: evaluate_one_no_callback [OF a])
    have ne: "new_events pe clock ctx k (a # as)
                = event_of (fired (clock k) a) ctx # new_events pe clock ctx (Suc k) as"
      using True by (simp add: new_events_def)
    show ?thesis
      unfolding step Cons.IH [OF as] h' ne
      using keep_last_append [of 1000 "h @ [event_of (fired (clock k) a) ctx]"
          "new_events pe clock ctx (Suc k) as"]
      by simp
  next
    case False
    then have h': "?h' = h"
      by (simp add: evaluate_one_no_callback [OF a])
    have ne: "new_events pe clock ctx k (a # as) = new_events pe clock ctx (Suc k) as"
      using False by (simp add: new_events_def)
    show ?thesis
      unfolding step Cons.IH [OF as] h' ne by simp
  qed
qed

lemma evaluate_alerts_alerts:
  assumes "\<forall>a \<in> set (alerts m). callback a = None"
  shows "alerts (evaluate_alerts pe clock ctx m)
     = map (\<lambda>(i, a). if fires pe ctx a then fired (clock i) a else a) (enumerate 0 (alerts m))"
  using loop_alerts [OF assms, of pe clock ctx 0 "alert_history m"]
  by (cases "evaluate_loop pe clock ctx 0 (alerts m) (alert_history m)")
     (simp add: evaluate_alerts_def)

lemma evaluate_alerts_history:
  assumes "\<forall>a \<in> set (alerts m). callback a = None"
  shows "alert_history (evaluate_alerts pe clock ctx m)
     = (if new_events pe clock ctx 0 (alerts m) = [] then alert_history m
        else keep_last 1000 (alert_history m @ new_events pe clock ctx 0 (alerts m)))"
  using loop_history [OF assms, of pe clock ctx 0 "alert_history m"]
  by (cases "evaluate_loop pe clock ctx 0 (alerts m) (alert_history m)")
     (simp add: evaluate_alerts_def)

lemma evaluate_alerts_nth:
  assumes "\<forall>a \<in> set (alerts m). callback a = None" "i < length (alerts m)"
  shows "alerts (evaluate_alerts pe clock ctx m) ! i
           = (if fires pe ctx (alerts m ! i) then fired (clock i) (alerts m ! i) else alerts m ! i)"
  using assms(2) by (simp add: evaluate_alerts_alerts [OF assms(1)] nth_enumerate_eq)

lemma evaluate_alerts_length:
  assumes "\<forall>a \<in> set (alerts m). callback a = None"
  shows "length (alerts (evaluate_alerts pe clock ctx m)) = length (alerts m)"
  by (simp add: evaluate_alerts_alerts [OF assms])

lemma evaluate_alerts_no_callback:
  assumes "\<forall>a \<in> set (alerts m). callback a = None"
  shows "\<forall>a \<in> set (alerts (evaluate_alerts pe clock ctx m)). callback a = None"
proof -
  have "callback (if fires pe ctx a then fired now a else a) = None"
    if "a \<in> set (alerts m)" for a now
    using that assms by (simp add: fired_def)
  then show ?thesis
    by (auto simp add: evaluate_alerts_alerts [OF assms] in_set_enumerate_eq)
qed

lemma evaluate_many_triggered:
  "\<forall>a \<in> set (alerts m). callback a = None \<Longrightarrow> i < length (alerts m)
     \<Longrightarrow> triggered (alerts m ! i)
     \<Longrightarrow> length (alerts (evaluate_many pe calls m)) = length (alerts m)
         \<and> alerts (evaluate_many pe calls m) ! i = alerts m ! i"
proof (induction calls arbitrary: m)
  case Nil
  then show ?case by simp
next
  case (Cons call calls)
  obtain clock ctx where call: "call = (clock, ctx)" by (cases call)
  let ?m = "evaluate_alerts pe clock ctx m"
  have none: "\<forall>a \<in> set (alerts ?m). callback a = None"
    using Cons.prems(1) by (rule evaluate_alerts_no_callback)
  have same: "alerts ?m ! i = alerts m ! i"
    using Cons.prems by (simp add: evaluate_alerts_nth fires_def)
  have len: "length (alerts ?m) = length (alerts m)"
    using Cons.prems(1) by (rule evaluate_alerts_length)
  show ?case
    using Cons.IH [OF none] Cons.prems same len call by simp
qed

lemma length_filter_enumerate:
  "length (filter (\<lambda>(i, a). P a) (enumerate k as)) = length (filter P as)"
  by (induction as arbitrary: k) simp_all

lemma length_new_events:
  "length (new_events pe clock ctx k as) = length (filter (fires pe ctx) as)"
  using length_filter_enumerate [of "fires pe ctx" k as]
  by (simp add: new_events_def)

text \<open>
  Claim C2, as the code has it, for a manager whose rules have no callback.  In one call of
  \<^verbatim>\<open>evaluate_alerts\<close>, a rule that is not triggered and whose condition holds becomes
  triggered, its counter grows by exactly 1 and \<^verbatim>\<open>triggered_at\<close> is stamped; a
  triggered rule is left as it is, by this call and by any sequence of further calls; and
  the history grows by exactly one event for each rule that was not triggered and whose
  condition holds (of the result the last 1000 entries are kept).  A triggered rule
  therefore adds no event, whatever its condition.
\<close>

theorem evaluate_alerts_edge_triggered:
  assumes "i < length (alerts m)" "\<forall>a \<in> set (alerts m). callback a = None"
  shows "(\<not> triggered (alerts m ! i) \<and> evaluate pe (alerts m ! i) ctx \<longrightarrow>
            alerts (evaluate_alerts pe clock ctx m) ! i
              = (alerts m ! i)\<lparr>triggered := True, triggered_at := Some (clock i),
                               trigger_count := trigger_count (alerts m ! i) + 1\<rparr>)
       \<and> (triggered (alerts m ! i) \<longrightarrow>
            alerts (evaluate_alerts pe clock ctx m) ! i = alerts m ! i
            \<and> alerts (evaluate_many pe calls m) ! i = alerts m ! i)
       \<and> alert_history (evaluate_alerts pe clock ctx m)
           = (if new_events pe clock ctx 0 (alerts m) = [] then alert_history m
              else keep_last 1000 (alert_history m @ new_events pe clock ctx 0 (alerts m)))
       \<and> length (new_events pe clock ctx 0 (alerts m))
           = length (filter (\<lambda>a. \<not> triggered a \<and> evaluate pe a ctx) (alerts m))"
proof -
  have armed: "\<not> triggered (alerts m ! i) \<and> evaluate pe (alerts m ! i) ctx \<longrightarrow>
            alerts (evaluate_alerts pe clock ctx m) ! i
              = (alerts m ! i)\<lparr>triggered := True, triggered_at := Some (clock i),
                               trigger_count := trigger_count (alerts m ! i) + 1\<rparr>"
    using assms by (simp add: evaluate_alerts_nth fires_def fired_def)
  have held: "triggered (alerts m ! i) \<longrightarrow>
            alerts (evaluate_alerts pe clock ctx m) ! i = alerts m ! i
            \<and> alerts (evaluate_many pe calls m) ! i = alerts m ! i"
    using assms evaluate_many_triggered [of m i pe calls]
    by (simp add: evaluate_alerts_nth fires_def)
  have count: "length (new_events pe clock ctx 0 (alerts m))
           = length (filter (\<lambda>a. \<not> triggered a \<and> evaluate pe a ctx) (alerts m))"
    unfolding length_new_events
    by (rule arg_cong [where f = length], rule filter_cong) (auto simp add: fires_def)
  show ?thesis
    using armed held count evaluate_alerts_history [OF assms(2), of pe clock ctx] by simp
qed

theorem evaluate_alerts_edge_triggered_witness:
  "alerts (evaluate_alerts sample_eval sample_clock (sample_ctx 3)
             \<lparr>alerts = [sample_rule None], alert_history = []\<rparr>)
     = [(sample_rule None)\<lparr>triggered := True, triggered_at := Some 1000, trigger_count := 1\<rparr>]
   \<and> alert_history (evaluate_alerts sample_eval sample_clock (sample_ctx 3)
             \<lparr>alerts = [sample_rule None], alert_history = []\<rparr>)
     = [\<lparr>ev_condition = ''x > 2'', ev_triggered_at = Some 1000, ev_trigger_count = 1,
         ev_context = sample_ctx 3\<rparr>]
   \<and> evaluate_alerts sample_eval sample_clock (sample_ctx 5)
        \<lparr>alerts = [(sample_rule None)\<lparr>triggered := True, triggered_at := Some 1000,
                                      trigger_count := 1\<rparr>],
         alert_history = [\<lparr>ev_condition = ''x > 2'', ev_triggered_at = Some 1000,
                           ev_trigger_count = 1, ev_context = sample_ctx 3\<rparr>]\<rparr>
     = \<lparr>alerts = [(sample_rule None)\<lparr>triggered := True, triggered_at := Some 1000,
                                      trigger_count := 1\<rparr>],
         alert_history = [\<lparr>ev_condition = ''x > 2'', ev_triggered_at = Some 1000,
                           ev_trigger_count = 1, ev_context = sample_ctx 3\<rparr>]\<rparr>"
  using evaluate_alerts_edge_triggered [of 0 "\<lparr>alerts = [sample_rule None], alert_history = []\<rparr>"
      sample_eval "sample_ctx 3" sample_clock "[]"]
    evaluate_alerts_edge_triggered [of 0
      "\<lparr>alerts = [(sample_rule None)\<lparr>triggered := True, triggered_at := Some 1000,
                                      trigger_count := 1\<rparr>],
         alert_history = [\<lparr>ev_condition = ''x > 2'', ev_triggered_at = Some 1000,
                           ev_trigger_count = 1, ev_context = sample_ctx 3\<rparr>]\<rparr>"
      sample_eval "sample_ctx 5" sample_clock "[]"]
  by (simp add: evaluate_alerts_def evaluate_one_def evaluate_def trigger_def run_callback_def
      record_alert_def event_of_def sample_eval_def sample_rule_def sample_ctx_def
      sample_clock_def)

text \<open>
  Claim C2 as stated fails for rules with a callback.  With a callback that raises, the
  rule is armed and its condition holds, it becomes triggered and is counted, and no event
  reaches the history.  With a callback that returns after setting \<^verbatim>\<open>triggered\<close> back
  to \<^verbatim>\<open>False\<close>, the event is recorded and the rule is not triggered afterwards, so that
  the next call with a true condition appends a second event.
\<close>

theorem evaluate_alerts_callback_breaks_edge:
  "\<not> triggered (sample_rule (Some raising_callback))
   \<and> evaluate sample_eval (sample_rule (Some raising_callback)) (sample_ctx 3)
   \<and> evaluate_alerts sample_eval sample_clock (sample_ctx 3)
        \<lparr>alerts = [sample_rule (Some raising_callback)], alert_history = []\<rparr>
     = \<lparr>alerts = [(sample_rule (Some raising_callback))
                     \<lparr>triggered := True, triggered_at := Some 1000, trigger_count := 1\<rparr>],
        alert_history = []\<rparr>
   \<and> evaluate_alerts sample_eval sample_clock (sample_ctx 3)
        \<lparr>alerts = [sample_rule (Some rearming_callback)], alert_history = []\<rparr>
     = \<lparr>alerts = [(sample_rule (Some rearming_callback))
                     \<lparr>triggered_at := Some 1000, trigger_count := 1\<rparr>],
        alert_history = [\<lparr>ev_condition = ''x > 2'', ev_triggered_at = Some 1000,
                          ev_trigger_count = 1, ev_context = sample_ctx 3\<rparr>]\<rparr>"
  by (simp add: evaluate_alerts_def evaluate_one_def evaluate_def trigger_def run_callback_def
      raising_callback_def rearming_callback_def record_alert_def event_of_def sample_eval_def
      sample_rule_def sample_ctx_def sample_clock_def)

section \<open>Properties of the analytics engine\<close>

text \<open>
  Claim C9.  A series with fewer than 10 values that are not missing gets the sentinel
  result (statistic 0, p-value 1, no critical values, not stationary), whatever its values
  are and whatever the test would say; the function has no exceptional outcome.
\<close>

theorem adf_test_short_series_sentinel:
  "length (dropna series) < 10 \<Longrightarrow>
     compute_adf_test adfuller series
       = \<lparr>adf_statistic = 0, pvalue = 1, critical_values = [], is_stationary = False\<rparr>"
  by (simp add: compute_adf_test_def adf_sentinel_def Let_def)

theorem adf_test_short_series_sentinel_witness:
  "length (dropna [None, None, None, None, None, None, None, None, None, Some 1, Some (2::real)]) = 2
   \<and> compute_adf_test sample_adfuller
        [None, None, None, None, None, None, None, None, None, Some 1, Some 2]
       = \<lparr>adf_statistic = 0, pvalue = 1, critical_values = [], is_stationary = False\<rparr>
   \<and> compute_adf_test sample_adfuller [Some 1, Some 2, Some 4]
       = \<lparr>adf_statistic = 0, pvalue = 1, critical_values = [], is_stationary = False\<rparr>"
  using adf_test_short_series_sentinel [of
      "[None, None, None, None, None, None, None, None, None, Some 1, Some 2]" sample_adfuller]
    adf_test_short_series_sentinel [of "[Some 1, Some 2, Some 4]" sample_adfuller]
  by (simp add: dropna_def)

lemma dropna_replicate:
  "dropna (replicate k v) = (case v of None \<Rightarrow> [] | Some c \<Rightarrow> replicate k c)"
  by (induction k) (simp_all add: dropna_def split: option.splits)

lemma window_at_replicate:
  assumes "i < n" "\<not> i + 1 < w"
  shows "window_at (replicate n (Some c)) w i = Some (replicate w c)"
proof -
  have "min w (n - (i + 1 - w)) = w" using assms by arith
  then have "take w (drop (i + 1 - w) (replicate n (Some c))) = replicate w (Some c)"
    by simp
  then show ?thesis
    using assms by (simp add: window_at_def dropna_replicate)
qed

lemma sum_list_replicate_real: "sum_list (replicate w (c::real)) = real w * c"
  by (induction w) (simp_all add: algebra_simps)

lemma zscore_at_constant:
  assumes "i < n"
  shows "zscore_at v (rolling_mean (replicate n v) w ! i)
           (rolling_std (replicate n v) w ! i) = NaN"
proof (cases v)
  case None
  then show ?thesis using assms by (simp add: zscore_at_def)
next
  case (Some c)
  show ?thesis
  proof (cases "i + 1 < w")
    case True
    then show ?thesis
      using assms by (simp add: zscore_at_def rolling_mean_def window_at_def Some)
  next
    case False
    have win: "window_at (replicate n (Some c)) w i = Some (replicate w c)"
      using assms False by (rule window_at_replicate)
    show ?thesis
    proof (cases "w \<le> 1")
      case True
      then show ?thesis
        using assms by (simp add: zscore_at_def rolling_std_def win Some split: option.splits)
    next
      case w: False
      have m: "rolling_mean (replicate n (Some c)) w ! i = Some c"
        using assms w by (simp add: rolling_mean_def win sum_list_replicate_real)
      have s: "rolling_std (replicate n (Some c)) w ! i = Some 0"
        using assms w by (simp add: rolling_std_def win sum_list_replicate_real Let_def)
      show ?thesis
        using assms by (simp add: zscore_at_def m s Some)
    qed
  qed
qed

text \<open>
  Claim C3, as the code has it.  For a constant series at least as long as the window, the
  result has one entry for each point of the series and every entry is NaN: before the
  first full window because the rolling mean is missing, afterwards as 0/0, the rolling
  standard deviation being 0.  No entry is finite or infinite.
\<close>

theorem compute_zscore_constant_series_all_nan:
  assumes "0 \<le> W" "W \<le> int n"
  shows "compute_zscore (replicate n v) W = Inr (replicate n NaN)"
proof -
  have "map (\<lambda>i. zscore_at (replicate n v ! i) (rolling_mean (replicate n v) (nat W) ! i)
              (rolling_std (replicate n v) (nat W) ! i)) [0..<n] = replicate n NaN"
    by (rule nth_equalityI) (simp_all add: zscore_at_constant)
  then show ?thesis
    using assms by (simp add: compute_zscore_def Let_def)
qed

theorem compute_zscore_constant_series_all_nan_witness:
  "compute_zscore [Some 5, Some 5, Some 5] 3 = Inr [NaN, NaN, NaN]"
  using compute_zscore_constant_series_all_nan [of 3 3 "Some 5"]
  by (simp add: numeral_3_eq_3)

text \<open>
  Claim C3 as stated fails: the z-score of this constant series with window 2 is a series
  of four NaN values, not a series free of NaN.
\<close>

theorem compute_zscore_constant_series_has_nan:
  "compute_zscore [Some 100, Some 100, Some 100, Some 100] 2 = Inr [NaN, NaN, NaN, NaN]"
  by (simp add: compute_zscore_def rolling_mean_def rolling_std_def window_at_def dropna_def
      zscore_at_def upt_rec)

lemma sum_sq_dev_zero_all_mean:
  assumes "sum_sq_dev xs = 0" "x \<in> set xs"
  shows "x = mean xs"
proof -
  have nn: "\<And>y. y \<in> set (map (\<lambda>x. (x - mean xs)\<^sup>2) xs) \<Longrightarrow> 0 \<le> y"
    by auto
  have "sum_list (map (\<lambda>x. (x - mean xs)\<^sup>2) xs) = 0"
    using assms(1) by (simp add: sum_sq_dev_def)
  then have "\<forall>y \<in> set (map (\<lambda>x. (x - mean xs)\<^sup>2) xs). y = 0"
    using sum_list_nonneg_eq_0_iff [OF nn] by blast
  then have "(x - mean xs)\<^sup>2 = 0"
    using assms(2) by simp
  then show ?thesis by simp
qed

lemma sxy_zero:
  assumes "sum_sq_dev (map fst rows) = 0"
  shows "sum_list (map (\<lambda>(y, x). (x - mean (map snd rows)) * (y - mean (map fst rows))) rows) = 0"
proof -
  have "(\<lambda>(y, x). (x - mean (map snd rows)) * (y - mean (map fst rows))) r = 0"
    if "r \<in> set rows" for r
  proof -
    have "fst r \<in> set (map fst rows)" using that by simp
    then have "fst r = mean (map fst rows)"
      by (rule sum_sq_dev_zero_all_mean [OF assms])
    then show ?thesis by (simp add: case_prod_unfold)
  qed
  then have eq: "map (\<lambda>(y, x). (x - mean (map snd rows)) * (y - mean (map fst rows))) rows
               = map (\<lambda>r. 0) rows"
    by (intro map_cong) auto
  show ?thesis unfolding eq by simp
qed

lemma exact_lstsq_constant_target:
  assumes "sum_sq_dev (map fst rows) = 0" "sum_sq_dev (map snd rows) \<noteq> 0"
  shows "exact_lstsq rows = (mean (map fst rows), 0)"
  using assms sxy_zero [OF assms(1)] by (simp add: exact_lstsq_def Let_def)




section \<open>Properties of the resampler\<close>

text \<open>
  Claim C1, evaluated on its own example: ticks at 0 s (price 100) and at 180 s (price 200),
  time frame 60 s.  The bars at 60 s and 120 s have no ticks, volume 0 and count 0, and their
  four prices are 200, the prices of the bar that follows them, where the claim asks for
  100, the close of the bar before them.
\<close>

theorem resample_gap_takes_next_bar:
  "resample_to_ohlc [sample_tick 0 100 1, sample_tick 180 200 2] (60 * second_us)
     = Inr [\<lparr>bar_symbol = ''btcusdt'', bar_timestamp = 0, bar_open = Some 100,
             bar_high = Some 100, bar_low = Some 100, bar_close = Some 100, volume = 1,
             trade_count = 1, timeframe = 60000000\<rparr>,
            \<lparr>bar_symbol = ''btcusdt'', bar_timestamp = 60000000, bar_open = Some 200,
             bar_high = Some 200, bar_low = Some 200, bar_close = Some 200, volume = 0,
             trade_count = 0, timeframe = 60000000\<rparr>,
            \<lparr>bar_symbol = ''btcusdt'', bar_timestamp = 120000000, bar_open = Some 200,
             bar_high = Some 200, bar_low = Some 200, bar_close = Some 200, volume = 0,
             trade_count = 0, timeframe = 60000000\<rparr>,
            \<lparr>bar_symbol = ''btcusdt'', bar_timestamp = 180000000, bar_open = Some 200,
             bar_high = Some 200, bar_low = Some 200, bar_close = Some 200, volume = 2,
             trade_count = 1, timeframe = 60000000\<rparr>]"
  by code_simp

text \<open>
  On this input every bin has at most one row, so the summation plays no part: whatever
  the floating-point summation is, as long as the sum of a single number is that number,
  the bars are the ones above.
\<close>

lemma resample_gap_any_summation:
  assumes "\<And>x. fsum [x] = x"
  shows "resample_to_ohlc_with fsum [sample_tick 0 100 1, sample_tick 180 200 2] (60 * second_us)
           = resample_to_ohlc [sample_tick 0 100 1, sample_tick 180 200 2] (60 * second_us)"
proof -
  let ?a = "sample_tick 0 100 1" and ?b = "sample_tick 180 200 2"
  have df: "ticks_to_dataframe [?a, ?b] = [?a, ?b]"
    by code_simp
  have groups: "map (group_of [?a, ?b] (60 * second_us))
                  (bin_labels (60 * second_us) (timestamp ?a) (timestamp (last [?a, ?b])))
                  = [[?a], [], [], [?b]]"
    by code_simp
  have vols: "map (\<lambda>g. if g = [] then 0 else fsum (map size' g)) [[?a], [], [], [?b]]
                = map (\<lambda>g. if g = [] then 0 else sum_list (map size' g)) [[?a], [], [], [?b]]"
    by (simp add: assms)
  show ?thesis
    unfolding resample_to_ohlc_def resample_to_ohlc_with_def df Let_def list.case groups vols
    by (rule refl)
qed

lemma timeframe_map_divides_day:
  "list_all (\<lambda>(name, secs). 0 < secs * second_us \<and> secs * second_us dvd day_us) timeframe_map"
  by (simp add: timeframe_map_def second_us_def day_us_def)

lemma first_edge_multiple:
  assumes "T dvd day_us"
  shows "first_edge T first = (first div T) * T"
proof -
  have "T dvd (first div day_us) * day_us"
    using assms by (rule dvd_mult)
  then obtain k where k: "(first div day_us) * day_us = T * k"
    by (rule dvdE)
  have "(first + T * (- k)) mod T = first mod T"
    by (rule mod_mult_self2)
  then have "(first - (first div day_us) * day_us) mod T = first mod T"
    by (simp only: k mult_minus_right add_uminus_conv_diff)
  then have "first_edge T first = first - first mod T"
    by (simp only: first_edge_def Let_def)
  then show ?thesis
    by (simp only: minus_mod_eq_div_mult)
qed

lemma in_bin_iff:
  fixes T :: int
  assumes "0 < T"
  shows "(q * T \<le> x \<and> x < q * T + T) = (x div T = q)"
proof
  assume a: "q * T \<le> x \<and> x < q * T + T"
  show "x div T = q"
    using a int_div_pos_eq [of x T q "x - q * T"] by (simp add: algebra_simps)
next
  assume "x div T = q"
  then show "q * T \<le> x \<and> x < q * T + T"
    using div_mult_mod_eq [of x T] pos_mod_sign [OF assms, of x] pos_mod_bound [OF assms, of x]
    by auto
qed

lemma sorted_le_last: "sorted xs \<Longrightarrow> x \<in> set xs \<Longrightarrow> x \<le> last xs"
  by (induction xs) auto

lemma dataframe_bounds:
  assumes "ticks_to_dataframe ticks = t0 # rest" "t \<in> set ticks"
  shows "timestamp t0 \<le> timestamp t \<and> timestamp t \<le> timestamp (last (t0 # rest))"
proof -
  let ?df = "t0 # rest"
  have srt: "sorted (map timestamp ?df)"
    using assms(1) sorted_sort_key [of timestamp ticks] by (simp add: ticks_to_dataframe_def)
  have mem: "timestamp t \<in> set (map timestamp ?df)"
    using assms by (metis image_eqI list.set_map set_sort ticks_to_dataframe_def)
  have lo: "timestamp t0 \<le> timestamp t"
    using srt mem by auto
  have "timestamp t \<le> last (map timestamp ?df)"
    using srt mem by (rule sorted_le_last)
  moreover have "last (map timestamp ?df) = timestamp (last ?df)"
    by (rule last_map) simp
  ultimately have hi: "timestamp t \<le> timestamp (last ?df)"
    by (simp only:)
  show ?thesis using lo hi by simp
qed

lemma sum_filter_dataframe:
  fixes f :: "real tick \<Rightarrow> real"
  shows "sum_list (map f (filter P (ticks_to_dataframe ticks))) = sum_list (map f (filter P ticks))"
proof -
  have "mset (map f (filter P (ticks_to_dataframe ticks))) = mset (map f (filter P ticks))"
    by (simp add: ticks_to_dataframe_def)
  then have "sum_mset (mset (map f (filter P (ticks_to_dataframe ticks))))
               = sum_mset (mset (map f (filter P ticks)))"
    by (simp only:)
  then show ?thesis
    by (simp only: sum_mset_sum_list)
qed

lemma length_filter_dataframe:
  "length (filter P (ticks_to_dataframe ticks)) = length (filter P ticks)"
proof -
  have "mset (filter P (ticks_to_dataframe ticks)) = mset (filter P ticks)"
    by (simp add: ticks_to_dataframe_def)
  then show ?thesis
    by (metis size_mset)
qed

lemma group_of_bucket:
  assumes "0 < T"
  shows "group_of df T (q * T) = filter (\<lambda>t. (timestamp t div T) * T = q * T) df"
proof -
  have eq: "(q * T \<le> timestamp t \<and> timestamp t < q * T + T) = ((timestamp t div T) * T = q * T)" for t
    using in_bin_iff [OF assms, of q "timestamp t"] assms by simp
  show ?thesis by (simp only: group_of_def eq)
qed

lemma bin_labels_nth:
  assumes "T dvd day_us" "k < length (bin_labels T first lst)"
  shows "bin_labels T first lst ! k = (first div T + int k) * T"
  using assms by (simp add: bin_labels_def first_edge_multiple algebra_simps)

lemma bin_labels_length:
  assumes "0 < T" "T dvd day_us"
  shows "length (bin_labels T first lst) = nat (lst div T - first div T + 1)"
proof -
  have "T \<noteq> 0" using assms(1) by simp
  then have "(lst + (- (first div T)) * T) div T = - (first div T) + lst div T"
    by (rule div_mult_self1)
  then have "(lst - first div T * T) div T = lst div T - first div T"
    by simp
  then show ?thesis
    by (simp only: bin_labels_def bin_count_def first_edge_multiple [OF assms(2)] length_map
        length_upt diff_zero)
qed

lemma distinct_bin_labels:
  assumes "0 < T"
  shows "distinct (bin_labels T first lst)"
proof -
  have "inj_on (\<lambda>k. first_edge T first + int k * T) (set [0..<bin_count T (first_edge T first) lst])"
    using assms by (auto simp add: inj_on_def)
  then show ?thesis
    by (simp add: bin_labels_def distinct_map)
qed

text \<open>
  Claim C8, as the code has it.  For a time frame that divides the day (each of the six
  named time frames does), and ticks in any order: every tick's bucket start
  \<open>\<lfloor>ts / T\<rfloor> * T\<close> is the start of a bar, no two bars have the same start, and for
  every bar the ticks whose bucket start is the bar's start are the rows \<open>g\<close> of its bin,
  in the order of their time stamps: the count of the bar is their number, and its volume
  is 0 when there are none and otherwise the floating-point sum \<open>fsum\<close> of their sizes,
  whatever that summation is.
\<close>

theorem resample_bucket_start_and_volume:
  assumes "0 < T" "T dvd day_us"
  shows "\<exists>bars. resample_to_ohlc_with fsum ticks T = Inr bars
      \<and> (\<forall>t \<in> set ticks. \<exists>b \<in> set bars. bar_timestamp b = (timestamp t div T) * T)
      \<and> (\<forall>b \<in> set bars. \<exists>g.
            mset g = mset (filter (\<lambda>t. (timestamp t div T) * T = bar_timestamp b) ticks)
          \<and> sorted (map timestamp g)
          \<and> volume b = (if g = [] then 0 else fsum (map size' g))
          \<and> trade_count b
              = int (length (filter (\<lambda>t. (timestamp t div T) * T = bar_timestamp b) ticks)))
      \<and> distinct (map bar_timestamp bars)"
proof (cases "ticks = []")
  case True
  then show ?thesis by (simp add: resample_to_ohlc_with_def)
next
  case False
  then have "ticks_to_dataframe ticks \<noteq> []"
    by (metis length_0_conv length_sort ticks_to_dataframe_def)
  then obtain t0 rest where df: "ticks_to_dataframe ticks = t0 # rest"
    by (cases "ticks_to_dataframe ticks") auto
  define labels where "labels = bin_labels T (timestamp t0) (timestamp (last (t0 # rest)))"
  define groups where "groups = map (group_of (t0 # rest) T) labels"
  define mk where "mk = (\<lambda>k. \<lparr>bar_symbol = symbol t0, bar_timestamp = labels ! k,
                                bar_open = bfill (map open_of groups) ! k,
                                bar_high = bfill (map high_of groups) ! k,
                                bar_low = bfill (map low_of groups) ! k,
                                bar_close = bfill (map close_of groups) ! k,
                                volume = map (\<lambda>g. if g = [] then 0 else fsum (map size' g)) groups ! k,
                                trade_count = map (\<lambda>g. int (length g)) groups ! k,
                                timeframe = T\<rparr>)"
  define bars where "bars = map mk [0..<length labels]"
  have res: "resample_to_ohlc_with fsum ticks T = Inr bars"
    using False df assms(1)
    by (simp add: resample_to_ohlc_with_def Let_def labels_def groups_def mk_def bars_def)
  have lab: "labels ! k = (timestamp t0 div T + int k) * T" if "k < length labels" for k
    using that assms(2) unfolding labels_def by (rule bin_labels_nth [rotated])
  have len: "length labels = nat (timestamp (last (t0 # rest)) div T - timestamp t0 div T + 1)"
    unfolding labels_def using assms by (rule bin_labels_length)
  have grp: "groups ! k = filter (\<lambda>t. (timestamp t div T) * T = labels ! k) (ticks_to_dataframe ticks)"
    if "k < length labels" for k
    using that group_of_bucket [OF assms(1), of "t0 # rest" "timestamp t0 div T + int k"]
    by (simp add: groups_def lab df)
  have glen: "length groups = length labels"
    by (simp add: groups_def)
  have srt: "sorted (map timestamp (filter P (ticks_to_dataframe ticks)))" for P
    unfolding ticks_to_dataframe_def by (rule sorted_filter) (rule sorted_sort_key)
  have perm: "mset (filter P (ticks_to_dataframe ticks)) = mset (filter P ticks)" for P
    by (simp add: ticks_to_dataframe_def)
  have cover: "\<exists>b \<in> set bars. bar_timestamp b = (timestamp t div T) * T" if "t \<in> set ticks" for t
  proof -
    have b: "timestamp t0 \<le> timestamp t \<and> timestamp t \<le> timestamp (last (t0 # rest))"
      using df that by (rule dataframe_bounds)
    have lo: "timestamp t0 div T \<le> timestamp t div T"
      using b assms(1) by (simp add: zdiv_mono1)
    have hi: "timestamp t div T \<le> timestamp (last (t0 # rest)) div T"
      using b assms(1) by (simp add: zdiv_mono1)
    define k where "k = nat (timestamp t div T - timestamp t0 div T)"
    have k: "k < length labels"
      using lo hi by (simp add: len k_def)
    have "int k = timestamp t div T - timestamp t0 div T"
      using lo by (simp add: k_def)
    then have "labels ! k = (timestamp t div T) * T"
      using lab [OF k] by simp
    then have "bar_timestamp (mk k) = (timestamp t div T) * T"
      by (simp add: mk_def)
    moreover have "mk k \<in> set bars"
      using k by (simp add: bars_def)
    ultimately show ?thesis by blast
  qed
  have agg: "\<exists>g. mset g = mset (filter (\<lambda>t. (timestamp t div T) * T = bar_timestamp b) ticks)
          \<and> sorted (map timestamp g)
          \<and> volume b = (if g = [] then 0 else fsum (map size' g))
          \<and> trade_count b
              = int (length (filter (\<lambda>t. (timestamp t div T) * T = bar_timestamp b) ticks))"
    if "b \<in> set bars" for b
  proof -
    have "b \<in> mk ` {0..<length labels}"
      using that by (simp add: bars_def)
    then obtain k where k: "k < length labels" and b: "b = mk k"
      by auto
    let ?P = "\<lambda>t. (timestamp t div T) * T = bar_timestamp b"
    let ?g = "filter ?P (ticks_to_dataframe ticks)"
    have ts: "bar_timestamp b = labels ! k"
      by (simp add: b mk_def)
    have g: "groups ! k = ?g"
      using grp [OF k] by (simp add: ts)
    have "volume (mk k) = (if groups ! k = [] then 0 else fsum (map size' (groups ! k)))"
      using k glen by (simp add: mk_def)
    then have "volume (mk k) = (if ?g = [] then 0 else fsum (map size' ?g))"
      by (simp only: g)
    then have vol: "volume b = (if ?g = [] then 0 else fsum (map size' ?g))"
      by (simp only: b)
    have "trade_count (mk k) = int (length (groups ! k))"
      using k glen by (simp add: mk_def)
    then have "trade_count (mk k) = int (length ?g)"
      by (simp only: g)
    then have "trade_count b = int (length ?g)"
      by (simp only: b)
    then have cnt: "trade_count b = int (length (filter ?P ticks))"
      by (simp only: length_filter_dataframe)
    show ?thesis
      using perm [of ?P] srt [of ?P] vol cnt by blast
  qed
  have "map bar_timestamp bars = map (\<lambda>k. labels ! k) [0..<length labels]"
    by (simp add: bars_def mk_def)
  then have "map bar_timestamp bars = labels"
    by (simp add: map_nth)
  then have dist: "distinct (map bar_timestamp bars)"
    using distinct_bin_labels [OF assms(1)] by (simp add: labels_def)
  have all_agg: "\<forall>b \<in> set bars. \<exists>g.
            mset g = mset (filter (\<lambda>t. (timestamp t div T) * T = bar_timestamp b) ticks)
          \<and> sorted (map timestamp g)
          \<and> volume b = (if g = [] then 0 else fsum (map size' g))
          \<and> trade_count b
              = int (length (filter (\<lambda>t. (timestamp t div T) * T = bar_timestamp b) ticks))"
    using agg by (rule ballI)
  have all_cover: "\<forall>t \<in> set ticks. \<exists>b \<in> set bars. bar_timestamp b = (timestamp t div T) * T"
    using cover by (rule ballI)
  show ?thesis
    using res all_cover all_agg dist by (intro exI [of _ bars] conjI)
qed

theorem resample_bucket_start_and_volume_witness:
  "0 < 60 * second_us \<and> 60 * second_us dvd day_us
   \<and> (case resample_to_ohlc_with sum_list
             [sample_tick 180 200 2, sample_tick 181 210 2, sample_tick 0 100 1, sample_tick 1 90 1]
             (60 * second_us) of
         Inr bars \<Rightarrow> map (\<lambda>b. (bar_timestamp b, volume b, trade_count b)) bars
       | Inl e \<Rightarrow> [])
       = [(0, 2, 2), (60000000, 0, 0), (120000000, 0, 0), (180000000, 4, 2)]"
proof -
  have pos: "0 < 60 * second_us"
    by (simp add: second_us_def)
  have dvd: "60 * second_us dvd day_us"
    by (simp add: second_us_def day_us_def)
  note general = resample_bucket_start_and_volume [OF pos dvd, of sum_list
      "[sample_tick 180 200 2, sample_tick 181 210 2, sample_tick 0 100 1, sample_tick 1 90 1]"]
  have concrete: "(case resample_to_ohlc_with sum_list
             [sample_tick 180 200 2, sample_tick 181 210 2, sample_tick 0 100 1, sample_tick 1 90 1]
             (60 * second_us) of
         Inr bars \<Rightarrow> map (\<lambda>b. (bar_timestamp b, volume b, trade_count b)) bars
       | Inl e \<Rightarrow> [])
       = [(0, 2, 2), (60000000, 0, 0), (120000000, 0, 0), (180000000, 4, 2)]"
    by code_simp
  show ?thesis
    using general pos dvd concrete by - (intro conjI; assumption)
qed


text \<open>
  Claim C8 as stated fails for a time frame that does not divide the day: with 7 minutes,
  a tick at 00:10 of the second day lies in the bar that starts at 00:07 of that day
  (86820 s), while \<open>\<lfloor>ts / T\<rfloor> * T\<close> is 86940 s.
\<close>

theorem resample_seven_minutes_anchored_at_midnight:
  "resample_to_ohlc [sample_tick 87000 100 1] (420 * second_us)
     = Inr [\<lparr>bar_symbol = ''btcusdt'', bar_timestamp = 86820000000, bar_open = Some 100,
             bar_high = Some 100, bar_low = Some 100, bar_close = Some 100, volume = 1,
             trade_count = 1, timeframe = 420000000\<rparr>]
   \<and> (timestamp (sample_tick 87000 100 1) div (420 * second_us)) * (420 * second_us)
       = 86940000000"
  by code_simp

end
